theory Spec2Isabelle
  imports Complex_Main "HOL-Library.Sublist"
begin

section \<open>The sitemap manager of sitemaptool (main.go)\<close>

text \<open>
  A shallow embedding of the partitioning and bookkeeping engine of \<^verbatim>\<open>main.go\<close>:
  the entry store (\<^verbatim>\<open>Database\<close>), the partition writer, the index generator and the
  policy and duplicate filter, with the two commands \<^verbatim>\<open>add\<close> and \<^verbatim>\<open>create\<close> that drive them.

  What the Go code leaves to its libraries is modelled as follows.
  \<^item> The file system is a map from paths to files; \<^verbatim>\<open>os.WriteFile\<close> and \<^verbatim>\<open>os.Rename\<close> fail
    on the paths of two sets carried by the world, so every error return of the source
    is a branch of the model.
  \<^item> A file holds the value its text encodes (\<^verbatim>\<open>encoding/json\<close>, \<^verbatim>\<open>encoding/xml\<close>), or garbage.
  \<^item> \<^verbatim>\<open>sha256.Sum256\<close> followed by \<^verbatim>\<open>hex.EncodeToString\<close> is symbolic: the digest of a string
    is a term built from it (collisions are not modelled). \<^verbatim>\<open>Format("2006-01-02")\<close> of a
    time is symbolic in the same way.
  \<^item> A mutex (\<^verbatim>\<open>sync.Mutex\<close>, or \<^verbatim>\<open>sync.RWMutex\<close> locked for writing) is a flag. \<^verbatim>\<open>Lock\<close> on
    a held mutex never returns (Go mutexes are not reentrant), which is the outcome
    \<open>Blocks\<close>; the program has one goroutine at that point, so nothing can release the
    mutex.
  \<^item> \<^verbatim>\<open>time.Now()\<close> reads the clock of the world.
  \<^item> \<^verbatim>\<open>json.MarshalIndent\<close> and \<^verbatim>\<open>xml.MarshalIndent\<close> do not fail on the structs of this
    program, so their error returns have no branch.
\<close>

subsection \<open>Constants\<close>

definition MAX_URLS_PER_SITEMAP :: int where
  "MAX_URLS_PER_SITEMAP = 50000"

definition SITEMAP_NAMESPACE :: string where
  "SITEMAP_NAMESPACE = ''http://www.sitemaps.org/schemas/sitemap/0.9''"

subsection \<open>Data\<close>

type_synonym time = nat

datatype digest = Sha256Hex string

datatype datestr = Format_YMD time

record Config =
  OutputDir :: string
  BaseURL :: string
  SitemapPrefix :: string
  PingOnUpdate :: bool
  PingEngines :: "string list"
  DefaultChangefreq :: string
  DefaultPriority :: real
  RespectRobots :: bool
  VCSAware :: bool
  RobotsPath :: string
  CheckUpdates :: bool

record SitemapInfo =
  Filename :: string
  URLCount :: int
  LastMod :: time

record Database =
  Sitemaps :: "SitemapInfo list"
  URLHashes :: "digest \<rightharpoonup> bool"
  CurrentSitemap :: string
  LastUpdated :: time
  mu :: bool

record URL =
  Loc :: string
  URL_LastMod :: datestr
  ChangeFreq :: string
  Priority :: real

record URLSet =
  Xmlns :: string
  URLs :: "URL list"

record SitemapEntry =
  Entry_Loc :: string
  Entry_LastMod :: datestr

record SitemapIndex =
  Index_Xmlns :: string
  Index_Sitemaps :: "SitemapEntry list"

text \<open>
  \<open>DBJson\<close> is the JSON object of the entry store: \<^verbatim>\<open>sitemaps\<close>, \<^verbatim>\<open>url_hashes\<close> (\<open>None\<close> for
  \<^verbatim>\<open>null\<close>), \<^verbatim>\<open>current_sitemap\<close>, \<^verbatim>\<open>last_updated\<close>; the mutex is tagged \<^verbatim>\<open>json:"-"\<close> and is
  not part of it.
\<close>

datatype content =
    DBJson "SitemapInfo list" "(digest \<rightharpoonup> bool) option" string time
  | UrlsetXml URLSet
  | IndexXml SitemapIndex
  | Garbage

datatype fnode = Doc content | Unreadable

record world =
  files :: "string \<rightharpoonup> fnode"
  wr_fail :: "string set"
  mv_fail :: "string set"
  clock :: time

text \<open>
  The struct \<^verbatim>\<open>SitemapManager\<close>; its field \<^verbatim>\<open>ConfigPath\<close> is used by the configuration
  loader only and is left out.
\<close>

record SitemapManager =
  Config :: Config
  DB :: Database
  DBPath :: string
  RobotsRules :: "string \<rightharpoonup> bool"
  fileLock :: bool

datatype error =
  PolicyRejected | DuplicateURL | PartitionIOError | StoreIOError | IndexIOError

text \<open>
  A call either returns a value, with the manager and the world as it leaves them, or
  blocks forever on a mutex, with the manager and the world as they are at that point.
\<close>

datatype 'a outcome =
    Returns 'a SitemapManager world
  | Blocks SitemapManager world

subsection \<open>Library functions\<close>

definition HasPrefix :: "string \<Rightarrow> string \<Rightarrow> bool" where
  "HasPrefix s p = prefix p s"

definition TrimSuffix :: "string \<Rightarrow> string \<Rightarrow> string" where
  "TrimSuffix s suf = (if suffix suf s then take (length s - length suf) s else s)"

definition digit :: "nat \<Rightarrow> char" where
  "digit d = ''0123456789'' ! d"

function Itoa :: "nat \<Rightarrow> string" where
  "Itoa n = (if n < 10 then [digit n] else Itoa (n div 10) @ [digit (n mod 10)])"
  by pat_completeness auto
termination
  by (relation "measure id") auto

declare Itoa.simps [simp del]

text \<open>\<^verbatim>\<open>fmt.Sprintf("%s_%d.xml", prefix, n)\<close>, for a number that is not negative.\<close>

definition Sprintf_sitemap :: "string \<Rightarrow> nat \<Rightarrow> string" where
  "Sprintf_sitemap pre n = pre @ ''_'' @ Itoa n @ ''.xml''"

text \<open>\<^verbatim>\<open>filepath.Join\<close>, without the normalisation of \<^verbatim>\<open>filepath.Clean\<close>.\<close>

definition filepath_Join :: "string \<Rightarrow> string \<Rightarrow> string" where
  "filepath_Join dir name = dir @ ''/'' @ name"

datatype read_result = NotExist | ReadErr | Data content

definition os_ReadFile :: "world \<Rightarrow> string \<Rightarrow> read_result" where
  "os_ReadFile w p =
     (case files w p of
        None \<Rightarrow> NotExist
      | Some Unreadable \<Rightarrow> ReadErr
      | Some (Doc c) \<Rightarrow> Data c)"

definition os_WriteFile :: "world \<Rightarrow> string \<Rightarrow> content \<Rightarrow> world option" where
  "os_WriteFile w p c =
     (if p \<in> wr_fail w then None
      else Some (w\<lparr>files := (files w)(p \<mapsto> Doc c)\<rparr>))"

definition os_Rename :: "world \<Rightarrow> string \<Rightarrow> string \<Rightarrow> world option" where
  "os_Rename w old new =
     (if new \<in> mv_fail w \<or> files w old = None then None
      else if old = new then Some w
      else Some (w\<lparr>files := (files w)(new := files w old, old := None)\<rparr>))"

text \<open>Reading a Go \<^verbatim>\<open>map[K]bool\<close> at a missing key gives \<^verbatim>\<open>false\<close>.\<close>

definition map_index :: "('k \<rightharpoonup> bool) \<Rightarrow> 'k \<Rightarrow> bool" where
  "map_index m k = (case m k of None \<Rightarrow> False | Some b \<Rightarrow> b)"

subsection \<open>Entry store persistence\<close>

definition empty_Database :: Database where
  "empty_Database =
     \<lparr>Sitemaps = [], URLHashes = Map.empty, CurrentSitemap = [], LastUpdated = 0, mu = False\<rparr>"

definition SaveDB :: "SitemapManager \<Rightarrow> world \<Rightarrow> error option outcome" where
  "SaveDB sm w =
     (if mu (DB sm) then Blocks sm w
      else
        let sm1 = sm\<lparr>DB := (DB sm)\<lparr>mu := True, LastUpdated := clock w\<rparr>\<rparr>;
            data = DBJson (Sitemaps (DB sm1)) (Some (URLHashes (DB sm1)))
                     (CurrentSitemap (DB sm1)) (LastUpdated (DB sm1));
            tempFile = DBPath sm1 @ ''.tmp'';
            unlocked = (\<lambda>s. s\<lparr>DB := (DB s)\<lparr>mu := False\<rparr>\<rparr>)
        in case os_WriteFile w tempFile data of
             None \<Rightarrow> Returns (Some StoreIOError) (unlocked sm1) w
           | Some w1 \<Rightarrow>
               (case os_Rename w1 tempFile (DBPath sm1) of
                  None \<Rightarrow> Returns (Some StoreIOError) (unlocked sm1) w1
                | Some w2 \<Rightarrow> Returns None (unlocked sm1) w2))"

definition LoadDB :: "SitemapManager \<Rightarrow> world \<Rightarrow> error option outcome" where
  "LoadDB sm w =
     (if fileLock sm then Blocks sm w
      else
        let sm1 = sm\<lparr>fileLock := True\<rparr>;
            unlocked = (\<lambda>s. s\<lparr>fileLock := False\<rparr>)
        in case files w (DBPath sm1) of
             None \<Rightarrow>
               (case SaveDB (sm1\<lparr>DB := empty_Database\<lparr>LastUpdated := clock w\<rparr>\<rparr>) w of
                  Blocks s w' \<Rightarrow> Blocks s w'
                | Returns e s w' \<Rightarrow> Returns e (unlocked s) w')
           | Some Unreadable \<Rightarrow> Returns (Some StoreIOError) (unlocked sm1) w
           | Some (Doc (DBJson ss hs cur lu)) \<Rightarrow>
               Returns None
                 (unlocked (sm1\<lparr>DB :=
                    \<lparr>Sitemaps = ss,
                     URLHashes = (case hs of None \<Rightarrow> Map.empty | Some m \<Rightarrow> m),
                     CurrentSitemap = cur, LastUpdated = lu, mu = False\<rparr>\<rparr>)) w
           | Some (Doc _) \<Rightarrow>
               Returns (Some StoreIOError) (unlocked (sm1\<lparr>DB := empty_Database\<rparr>)) w)"

subsection \<open>Policy and duplicate filter\<close>

definition IsURLAllowed :: "SitemapManager \<Rightarrow> string \<Rightarrow> bool" where
  "IsURLAllowed sm url =
     (if \<not> RespectRobots (Config sm) then True
      else \<not> (\<exists>disallowPath \<in> dom (RobotsRules sm). HasPrefix url disallowPath))"

definition HashURL :: "string \<Rightarrow> digest" where
  "HashURL url = Sha256Hex url"

subsection \<open>Partition writer\<close>

fun NeedNewSitemap_loop :: "SitemapInfo list \<Rightarrow> string \<Rightarrow> bool" where
  "NeedNewSitemap_loop [] cur = False"
| "NeedNewSitemap_loop (info # rest) cur =
     (if Filename info = cur then URLCount info \<ge> MAX_URLS_PER_SITEMAP
      else NeedNewSitemap_loop rest cur)"

definition NeedNewSitemap :: "SitemapManager \<Rightarrow> bool" where
  "NeedNewSitemap sm =
     (if CurrentSitemap (DB sm) = [] then True
      else NeedNewSitemap_loop (Sitemaps (DB sm)) (CurrentSitemap (DB sm)))"

definition CreateNewSitemap :: "SitemapManager \<Rightarrow> world \<Rightarrow> string \<times> SitemapManager" where
  "CreateNewSitemap sm w =
     (let sitemapNum = length (Sitemaps (DB sm)) + 1;
          filename = Sprintf_sitemap (SitemapPrefix (Config sm)) sitemapNum
      in (filename,
          sm\<lparr>DB := (DB sm)
            \<lparr>Sitemaps := Sitemaps (DB sm) @
               [\<lparr>Filename = filename, URLCount = 0, LastMod = clock w\<rparr>],
             CurrentSitemap := filename\<rparr>\<rparr>))"

definition GetCurrentSitemap :: "SitemapManager \<Rightarrow> world \<Rightarrow> string \<times> SitemapManager" where
  "GetCurrentSitemap sm w =
     (if CurrentSitemap (DB sm) = [] \<or> NeedNewSitemap sm then CreateNewSitemap sm w
      else (CurrentSitemap (DB sm), sm))"

definition LoadSitemap :: "SitemapManager \<Rightarrow> world \<Rightarrow> string \<Rightarrow> error + URLSet" where
  "LoadSitemap sm w filename =
     (case os_ReadFile w (filepath_Join (OutputDir (Config sm)) filename) of
        NotExist \<Rightarrow> Inr \<lparr>Xmlns = SITEMAP_NAMESPACE, URLs = []\<rparr>
      | ReadErr \<Rightarrow> Inl PartitionIOError
      | Data (UrlsetXml urlset) \<Rightarrow> Inr urlset
      | Data _ \<Rightarrow> Inl PartitionIOError)"

definition SaveSitemap ::
  "SitemapManager \<Rightarrow> world \<Rightarrow> string \<Rightarrow> URLSet \<Rightarrow> error option outcome" where
  "SaveSitemap sm w filename urlset =
     (if fileLock sm then Blocks sm w
      else
        let sm1 = sm\<lparr>fileLock := True\<rparr>;
            unlocked = (\<lambda>s. s\<lparr>fileLock := False\<rparr>);
            path = filepath_Join (OutputDir (Config sm1)) filename;
            tempFile = path @ ''.tmp''
        in case os_WriteFile w tempFile (UrlsetXml urlset) of
             None \<Rightarrow> Returns (Some PartitionIOError) (unlocked sm1) w
           | Some w1 \<Rightarrow>
               (case os_Rename w1 tempFile path of
                  None \<Rightarrow> Returns (Some PartitionIOError) (unlocked sm1) w1
                | Some w2 \<Rightarrow> Returns None (unlocked sm1) w2))"

fun UpdateSitemapInfo_loop ::
  "SitemapInfo list \<Rightarrow> string \<Rightarrow> int \<Rightarrow> time \<Rightarrow> SitemapInfo list" where
  "UpdateSitemapInfo_loop [] filename urlCount now = []"
| "UpdateSitemapInfo_loop (info # rest) filename urlCount now =
     (if Filename info = filename
      then info\<lparr>URLCount := urlCount, LastMod := now\<rparr> # rest
      else info # UpdateSitemapInfo_loop rest filename urlCount now)"

definition UpdateSitemapInfo ::
  "SitemapManager \<Rightarrow> world \<Rightarrow> string \<Rightarrow> int \<Rightarrow> SitemapManager" where
  "UpdateSitemapInfo sm w filename urlCount =
     sm\<lparr>DB := (DB sm)
       \<lparr>Sitemaps := UpdateSitemapInfo_loop (Sitemaps (DB sm)) filename urlCount (clock w)\<rparr>\<rparr>"

subsection \<open>Index generator\<close>

definition index_entry :: "Config \<Rightarrow> SitemapInfo \<Rightarrow> SitemapEntry" where
  "index_entry cfg info =
     \<lparr>Entry_Loc = TrimSuffix (BaseURL cfg) ''/'' @ ''/'' @ Filename info,
      Entry_LastMod = Format_YMD (LastMod info)\<rparr>"

definition GenerateSitemapIndex :: "SitemapManager \<Rightarrow> world \<Rightarrow> error option outcome" where
  "GenerateSitemapIndex sm w =
     (let index = \<lparr>Index_Xmlns = SITEMAP_NAMESPACE,
                   Index_Sitemaps = map (index_entry (Config sm)) (Sitemaps (DB sm))\<rparr>;
          indexPath = filepath_Join (OutputDir (Config sm)) ''sitemap_index.xml'';
          tempFile = indexPath @ ''.tmp''
      in case os_WriteFile w tempFile (IndexXml index) of
           None \<Rightarrow> Returns (Some IndexIOError) sm w
         | Some w1 \<Rightarrow>
             (case os_Rename w1 tempFile indexPath of
                None \<Rightarrow> Returns (Some IndexIOError) sm w1
              | Some w2 \<Rightarrow> Returns None sm w2))"

subsection \<open>Adding a URL\<close>

text \<open>
  \<^verbatim>\<open>AddURL\<close> takes the store's mutex for the whole call (\<^verbatim>\<open>defer Unlock\<close>) and, once the
  partition is written, calls \<^verbatim>\<open>SaveDB\<close>, which takes the same mutex. The notification
  \<^verbatim>\<open>go sm.PingSearchEngines()\<close> after the index is regenerated touches neither the manager
  nor the files and is left out.
\<close>

definition AddURL ::
  "SitemapManager \<Rightarrow> world \<Rightarrow> string \<Rightarrow> string \<Rightarrow> real \<Rightarrow> error option outcome" where
  "AddURL sm w url changefreq priority =
     (if mu (DB sm) then Blocks sm w
      else
        let sm1 = sm\<lparr>DB := (DB sm)\<lparr>mu := True\<rparr>\<rparr>;
            unlocked = (\<lambda>s. s\<lparr>DB := (DB s)\<lparr>mu := False\<rparr>\<rparr>)
        in if \<not> IsURLAllowed sm1 url then Returns (Some PolicyRejected) (unlocked sm1) w
           else
             let urlHash = HashURL url
             in if map_index (URLHashes (DB sm1)) urlHash
                then Returns (Some DuplicateURL) (unlocked sm1) w
                else
                  let (currentSitemap, sm2) = GetCurrentSitemap sm1 w;
                      urlset = (case LoadSitemap sm2 w currentSitemap of
                                  Inl err \<Rightarrow> \<lparr>Xmlns = SITEMAP_NAMESPACE, URLs = []\<rparr>
                                | Inr us \<Rightarrow> us);
                      newURL = \<lparr>Loc = url, URL_LastMod = Format_YMD (clock w),
                                ChangeFreq = changefreq, Priority = priority\<rparr>;
                      urlset1 = urlset\<lparr>URLs := URLs urlset @ [newURL]\<rparr>;
                      sm3 = sm2\<lparr>DB := (DB sm2)
                              \<lparr>URLHashes := (URLHashes (DB sm2))(urlHash \<mapsto> True)\<rparr>\<rparr>
                  in case SaveSitemap sm3 w currentSitemap urlset1 of
                       Blocks s w1 \<Rightarrow> Blocks s w1
                     | Returns (Some err) s w1 \<Rightarrow> Returns (Some err) (unlocked s) w1
                     | Returns None s w1 \<Rightarrow>
                         (let sm4 = UpdateSitemapInfo s w1 currentSitemap
                                      (int (length (URLs urlset1)))
                          in case SaveDB sm4 w1 of
                               Blocks s5 w2 \<Rightarrow> Blocks s5 w2
                             | Returns (Some err) s5 w2 \<Rightarrow> Returns (Some err) (unlocked s5) w2
                             | Returns None s5 w2 \<Rightarrow>
                                 (case GenerateSitemapIndex s5 w2 of
                                    Blocks s6 w3 \<Rightarrow> Blocks s6 w3
                                  | Returns (Some err) s6 w3 \<Rightarrow>
                                      Returns (Some err) (unlocked s6) w3
                                  | Returns None s6 w3 \<Rightarrow> Returns None (unlocked s6) w3)))"

subsection \<open>The commands\<close>

text \<open>
  \<^verbatim>\<open>NewSitemapManager\<close>: the configuration that \<^verbatim>\<open>LoadConfig\<close> read and the rules that
  \<^verbatim>\<open>ParseRobotsTxt\<close> would collect are parameters; \<^verbatim>\<open>MkdirAll\<close> is taken to succeed.
\<close>

definition NewSitemapManager ::
  "Config \<Rightarrow> (string \<rightharpoonup> bool) \<Rightarrow> world \<Rightarrow> error option outcome" where
  "NewSitemapManager cfg robots w =
     (let sm = \<lparr>Config = cfg, DB = empty_Database,
                DBPath = filepath_Join (OutputDir cfg) ''.sitemaptool_db.json'',
                RobotsRules = Map.empty, fileLock = False\<rparr>
      in case LoadDB sm w of
           Blocks s w1 \<Rightarrow> Blocks s w1
         | Returns (Some err) s w1 \<Rightarrow> Returns (Some err) s w1
         | Returns None s w1 \<Rightarrow>
             Returns None (if RespectRobots cfg then s\<lparr>RobotsRules := robots\<rparr> else s) w1)"

definition createCmd :: "Config \<Rightarrow> (string \<rightharpoonup> bool) \<Rightarrow> world \<Rightarrow> error option outcome" where
  "createCmd cfg robots w =
     (case NewSitemapManager cfg robots w of
        Blocks s w1 \<Rightarrow> Blocks s w1
      | Returns (Some err) s w1 \<Rightarrow> Returns (Some err) s w1
      | Returns None sm w1 \<Rightarrow>
          (let (filename, sm1) = CreateNewSitemap sm w1
           in case SaveDB sm1 w1 of
                Blocks s w2 \<Rightarrow> Blocks s w2
              | Returns (Some err) s w2 \<Rightarrow> Returns (Some err) s w2
              | Returns None sm2 w2 \<Rightarrow> GenerateSitemapIndex sm2 w2))"

definition addCmd ::
  "Config \<Rightarrow> (string \<rightharpoonup> bool) \<Rightarrow> world \<Rightarrow> string \<Rightarrow> string \<Rightarrow> real \<Rightarrow> error option outcome"
  where
  "addCmd cfg robots w url changefreq_flag priority_flag =
     (case NewSitemapManager cfg robots w of
        Blocks s w1 \<Rightarrow> Blocks s w1
      | Returns (Some err) s w1 \<Rightarrow> Returns (Some err) s w1
      | Returns None sm w1 \<Rightarrow>
          (let changefreq = (if changefreq_flag = [] then DefaultChangefreq (Config sm)
                             else changefreq_flag);
               priority = (if priority_flag = 0 then DefaultPriority (Config sm)
                           else priority_flag)
           in AddURL sm w1 url changefreq priority))"

text \<open>The configuration that \<^verbatim>\<open>DefaultConfig\<close> builds.\<close>

definition DefaultConfig :: Config where
  "DefaultConfig =
     \<lparr>OutputDir = ''./sitemaps'', BaseURL = ''https://example.com'',
      SitemapPrefix = ''sitemap'', PingOnUpdate = False,
      PingEngines = [''https://www.google.com/ping?sitemap='',
                     ''https://www.bing.com/ping?sitemap=''],
      DefaultChangefreq = ''weekly'', DefaultPriority = 0.5, RespectRobots = True,
      VCSAware = True, RobotsPath = ''./robots.txt'', CheckUpdates = True\<rparr>"

subsection \<open>Observing an outcome\<close>

fun returned :: "'a outcome \<Rightarrow> 'a option" where
  "returned (Returns v sm w) = Some v"
| "returned (Blocks sm w) = None"

fun world_of :: "'a outcome \<Rightarrow> world" where
  "world_of (Returns v sm w) = w"
| "world_of (Blocks sm w) = w"

fun manager_of :: "'a outcome \<Rightarrow> SitemapManager" where
  "manager_of (Returns v sm w) = sm"
| "manager_of (Blocks sm w) = sm"

subsection \<open>Runs of the tool\<close>

text \<open>
  Every command is a process of its own: it builds a manager from the files, works, and
  ends. A state is reachable when a fresh store (no store file yet) was opened, or a
  \<^verbatim>\<open>create\<close> or an \<^verbatim>\<open>add\<close> command succeeded in a reachable state; between two
  commands the clock and the failing paths may change, the files do not.
\<close>

inductive reachable ::
  "Config \<Rightarrow> (string \<rightharpoonup> bool) \<Rightarrow> SitemapManager \<Rightarrow> world \<Rightarrow> bool"
  for cfg :: Config and robots :: "string \<rightharpoonup> bool" where
  fresh:
    "files w (filepath_Join (OutputDir cfg) ''.sitemaptool_db.json'') = None \<Longrightarrow>
     NewSitemapManager cfg robots w = Returns None sm w' \<Longrightarrow>
     reachable cfg robots sm w'"
| create:
    "reachable cfg robots sm w \<Longrightarrow>
     createCmd cfg robots w = Returns None sm' w' \<Longrightarrow>
     reachable cfg robots sm' w'"
| add:
    "reachable cfg robots sm w \<Longrightarrow>
     addCmd cfg robots w url changefreq priority = Returns None sm' w' \<Longrightarrow>
     reachable cfg robots sm' w'"
| elapse:
    "reachable cfg robots sm w \<Longrightarrow> files w' = files w \<Longrightarrow>
     reachable cfg robots sm w'"




text \<open>
  What a command finds when it opens the store at a path: the partitions, the hashes and
  the current partition that \<^verbatim>\<open>LoadDB\<close> would load, the empty store when there is no file,
  and nothing when the file cannot be read or decoded.
\<close>

definition stored_db ::
  "world \<Rightarrow> string \<Rightarrow> (SitemapInfo list \<times> (digest \<rightharpoonup> bool) \<times> string) option" where
  "stored_db w path =
     (case files w path of
        None \<Rightarrow> Some ([], Map.empty, [])
      | Some Unreadable \<Rightarrow> None
      | Some (Doc (DBJson ss hs cur lu)) \<Rightarrow>
          Some (ss, (case hs of None \<Rightarrow> Map.empty | Some m \<Rightarrow> m), cur)
      | Some (Doc _) \<Rightarrow> None)"

definition db_triple :: "Database \<Rightarrow> SitemapInfo list \<times> (digest \<rightharpoonup> bool) \<times> string" where
  "db_triple db = (Sitemaps db, URLHashes db, CurrentSitemap db)"

definition stored_partitions :: "world \<Rightarrow> string \<Rightarrow> SitemapInfo list" where
  "stored_partitions w path =
     (case stored_db w path of None \<Rightarrow> [] | Some (ss, hs, cur) \<Rightarrow> ss)"

text \<open>The locations listed by the partition document at a path.\<close>

definition partition_locs :: "world \<Rightarrow> string \<Rightarrow> string list" where
  "partition_locs w path =
     (case files w path of
        Some (Doc (UrlsetXml urlset)) \<Rightarrow> map Loc (URLs urlset)
      | _ \<Rightarrow> [])"

subsection \<open>Example states\<close>

definition empty_disk :: world where
  "empty_disk = \<lparr>files = Map.empty, wr_fail = {}, mv_fail = {}, clock = 0\<rparr>"

definition private_rules :: "string \<rightharpoonup> bool" where
  "private_rules = [''/private'' \<mapsto> True]"

definition corrupt_disk :: world where
  "corrupt_disk = empty_disk\<lparr>files := [''./sitemaps/sitemap_1.xml'' \<mapsto> Doc Garbage]\<rparr>"

definition unreadable_disk :: world where
  "unreadable_disk = empty_disk\<lparr>files := [''./sitemaps/sitemap_1.xml'' \<mapsto> Unreadable]\<rparr>"

definition url_rules_manager :: SitemapManager where
  "url_rules_manager =
     \<lparr>Config = DefaultConfig, DB = empty_Database,
      DBPath = ''./sitemaps/.sitemaptool_db.json'',
      RobotsRules = [''https://example.com/private'' \<mapsto> True], fileLock = False\<rparr>"

definition two_partition_manager :: SitemapManager where
  "two_partition_manager =
     \<lparr>Config = DefaultConfig\<lparr>BaseURL := ''https://example.com/''\<rparr>,
      DB = \<lparr>Sitemaps = [\<lparr>Filename = ''sitemap_1.xml'', URLCount = 50000, LastMod = 3\<rparr>,
                         \<lparr>Filename = ''sitemap_2.xml'', URLCount = 1, LastMod = 5\<rparr>],
            URLHashes = [Sha256Hex ''https://example.com/a'' \<mapsto> True],
            CurrentSitemap = ''sitemap_2.xml'', LastUpdated = 5, mu = False\<rparr>,
      DBPath = ''./sitemaps/.sitemaptool_db.json'',
      RobotsRules = Map.empty, fileLock = False\<rparr>"



text \<open>Two \<^verbatim>\<open>add\<close> commands for the same URL, one after the other, in an empty directory.\<close>

definition first_add :: "error option outcome" where
  "first_add = addCmd DefaultConfig Map.empty empty_disk ''https://example.com/a'' [] 0"

definition second_add :: "error option outcome" where
  "second_add =
     addCmd DefaultConfig Map.empty (world_of first_add) ''https://example.com/a'' [] 0"

text \<open>
  The manager and the document that \<^verbatim>\<open>AddURL\<close> hands to \<^verbatim>\<open>SaveSitemap\<close>: the mutex held, the
  partition resolved, the hash recorded, the new entry appended to what was loaded.
\<close>

definition staged_manager :: "SitemapManager \<Rightarrow> world \<Rightarrow> string \<Rightarrow> SitemapManager" where
  "staged_manager sm w url =
     (let sm2 = snd (GetCurrentSitemap sm w)
      in sm2\<lparr>DB := (DB sm2)
           \<lparr>mu := True, URLHashes := (URLHashes (DB sm2))(HashURL url \<mapsto> True)\<rparr>\<rparr>)"


definition staged_urlset ::
  "SitemapManager \<Rightarrow> world \<Rightarrow> string \<Rightarrow> string \<Rightarrow> real \<Rightarrow> URLSet" where
  "staged_urlset sm w url changefreq priority =
     (let urlset = (case LoadSitemap sm w (fst (GetCurrentSitemap sm w)) of
                      Inl err \<Rightarrow> \<lparr>Xmlns = SITEMAP_NAMESPACE, URLs = []\<rparr>
                    | Inr us \<Rightarrow> us)
      in urlset\<lparr>URLs := URLs urlset @
           [\<lparr>Loc = url, URL_LastMod = Format_YMD (clock w),
             ChangeFreq = changefreq, Priority = priority\<rparr>]\<rparr>)"



text \<open>A store whose only partition is full, and a store with one entry and its document.\<close>

definition full_manager :: SitemapManager where
  "full_manager =
     \<lparr>Config = DefaultConfig,
      DB = \<lparr>Sitemaps = [\<lparr>Filename = ''sitemap_1.xml'', URLCount = 50000, LastMod = 3\<rparr>],
            URLHashes = Map.empty,
            CurrentSitemap = ''sitemap_1.xml'', LastUpdated = 3, mu = False\<rparr>,
      DBPath = ''./sitemaps/.sitemaptool_db.json'',
      RobotsRules = Map.empty, fileLock = False\<rparr>"

definition one_entry_manager :: SitemapManager where
  "one_entry_manager =
     \<lparr>Config = DefaultConfig,
      DB = \<lparr>Sitemaps = [\<lparr>Filename = ''sitemap_1.xml'', URLCount = 1, LastMod = 3\<rparr>],
            URLHashes = [Sha256Hex ''https://example.com/a'' \<mapsto> True],
            CurrentSitemap = ''sitemap_1.xml'', LastUpdated = 3, mu = False\<rparr>,
      DBPath = ''./sitemaps/.sitemaptool_db.json'',
      RobotsRules = Map.empty, fileLock = False\<rparr>"

definition one_entry_disk :: world where
  "one_entry_disk =
     \<lparr>files = [''./sitemaps/sitemap_1.xml'' \<mapsto>
         Doc (UrlsetXml \<lparr>Xmlns = SITEMAP_NAMESPACE,
           URLs = [\<lparr>Loc = ''https://example.com/a'', URL_LastMod = Format_YMD 3,
                    ChangeFreq = ''weekly'', Priority = 0.5\<rparr>]\<rparr>)],
      wr_fail = {}, mv_fail = {}, clock = 7\<rparr>"

text \<open>A \<^verbatim>\<open>create\<close> command after the add that blocked.\<close>

definition create_after_add :: "error option outcome" where
  "create_after_add = createCmd DefaultConfig Map.empty (world_of first_add)"

section \<open>Basic facts\<close>

lemmas eval_defs =
  addCmd_def createCmd_def NewSitemapManager_def LoadDB_def SaveDB_def AddURL_def
  GetCurrentSitemap_def NeedNewSitemap_def CreateNewSitemap_def LoadSitemap_def
  SaveSitemap_def UpdateSitemapInfo_def GenerateSitemapIndex_def IsURLAllowed_def
  HashURL_def map_index_def os_ReadFile_def os_WriteFile_def os_Rename_def
  filepath_Join_def Sprintf_sitemap_def HasPrefix_def TrimSuffix_def empty_Database_def
  index_entry_def DefaultConfig_def empty_disk_def private_rules_def corrupt_disk_def
  unreadable_disk_def url_rules_manager_def two_partition_manager_def suffix_to_prefix
  full_manager_def one_entry_manager_def one_entry_disk_def
  Let_def Itoa.simps digit_def SITEMAP_NAMESPACE_def MAX_URLS_PER_SITEMAP_def

subsection \<open>Paths\<close>

lemma digit_not_x: "d < 10 \<Longrightarrow> digit d \<noteq> CHR ''x''"
proof -
  assume "d < 10"
  then have "digit d \<in> set ''0123456789''"
    unfolding digit_def by (intro nth_mem) simp
  then show ?thesis by auto
qed

lemma Itoa_snoc: "\<exists>ds. Itoa n = ds @ [digit (n mod 10)]"
  by (subst Itoa.simps) auto

lemma last_neq: "xs \<noteq> [] \<Longrightarrow> ys \<noteq> [] \<Longrightarrow> last xs \<noteq> last ys \<Longrightarrow> as @ xs \<noteq> bs @ ys"
  by (metis last_appendR)


lemma partition_not_index [simp]:
  "filepath_Join dir (Sprintf_sitemap pre n) \<noteq> filepath_Join dir ''sitemap_index.xml''"
proof
  assume "filepath_Join dir (Sprintf_sitemap pre n) = filepath_Join dir ''sitemap_index.xml''"
  then have "(pre @ ''_'' @ Itoa n) @ ''.xml'' = ''sitemap_index'' @ ''.xml''"
    by (simp add: filepath_Join_def Sprintf_sitemap_def)
  then have e: "pre @ ''_'' @ Itoa n = ''sitemap_index''"
    by (simp only: append_same_eq)
  obtain ds where "Itoa n = ds @ [digit (n mod 10)]"
    using Itoa_snoc by blast
  with e have "(pre @ ''_'' @ ds) @ [digit (n mod 10)] = ''sitemap_inde'' @ [CHR ''x'']"
    by simp
  then have "digit (n mod 10) = CHR ''x''"
    by (simp only: append1_eq_conv)
  moreover have "digit (n mod 10) \<noteq> CHR ''x''"
    by (rule digit_not_x) simp
  ultimately show False by simp
qed

lemma partition_not_db [simp]:
  "filepath_Join dir (Sprintf_sitemap pre n) \<noteq> filepath_Join dir ''.sitemaptool_db.json''"
proof -
  have "(pre @ ''_'' @ Itoa n) @ ''.xml'' \<noteq> [] @ ''.sitemaptool_db.json''"
    by (rule last_neq) simp_all
  then show ?thesis by (simp add: filepath_Join_def Sprintf_sitemap_def)
qed

lemma partition_not_tmp [simp]:
  "filepath_Join dir (Sprintf_sitemap pre n) \<noteq> p @ ''.tmp''"
proof -
  have "(dir @ ''/'' @ pre @ ''_'' @ Itoa n) @ ''.xml'' \<noteq> p @ ''.tmp''"
    by (rule last_neq) simp_all
  then show ?thesis by (simp add: filepath_Join_def Sprintf_sitemap_def)
qed

lemma index_not_db [simp]:
  "filepath_Join dir ''sitemap_index.xml'' \<noteq> filepath_Join dir ''.sitemaptool_db.json''"
  "filepath_Join dir ''sitemap_index.xml'' @ ''.tmp'' \<noteq> filepath_Join dir ''.sitemaptool_db.json''"
  "filepath_Join dir ''sitemap_index.xml'' \<noteq> filepath_Join dir ''.sitemaptool_db.json'' @ ''.tmp''"
  by (simp_all add: filepath_Join_def)

lemma tmp_not_self [simp]: "p @ ''.tmp'' \<noteq> p"
  by simp

subsection \<open>The store's mutex\<close>

lemma unlock_lock_mu: "\<not> mu (DB sm) \<Longrightarrow> sm\<lparr>DB := (DB sm)\<lparr>mu := True\<rparr>\<rparr>\<lparr>DB := (DB (sm\<lparr>DB := (DB sm)\<lparr>mu := True\<rparr>\<rparr>))\<lparr>mu := False\<rparr>\<rparr> = sm"
  by (cases sm) simp

lemma GetCurrentSitemap_mu:
  "GetCurrentSitemap sm w = (f, sm') \<Longrightarrow> mu (DB sm') = mu (DB sm)"
  by (auto simp: GetCurrentSitemap_def CreateNewSitemap_def Let_def split: if_splits)

lemma SaveSitemap_DB: "SaveSitemap sm w f u = Returns e sm' w' \<Longrightarrow> DB sm' = DB sm"
  by (auto simp: SaveSitemap_def Let_def split: if_splits option.splits)

lemma SaveSitemap_error:
  "SaveSitemap sm w f u = Returns (Some e) sm' w' \<Longrightarrow> e = PartitionIOError"
  by (auto simp: SaveSitemap_def Let_def split: if_splits option.splits)

lemma UpdateSitemapInfo_mu: "mu (DB (UpdateSitemapInfo sm w f n)) = mu (DB sm)"
  by (simp add: UpdateSitemapInfo_def)

lemma SaveDB_locked: "mu (DB sm) \<Longrightarrow> SaveDB sm w = Blocks sm w"
  by (simp add: SaveDB_def)

lemma AddURL_never_succeeds: "AddURL sm w url cf pr \<noteq> Returns None sm' w'"
proof (cases "mu (DB sm)")
  case True
  then show ?thesis by (simp add: AddURL_def)
next
  case False
  then show ?thesis
    by (auto simp: AddURL_def Let_def SaveDB_locked UpdateSitemapInfo_mu
        split: if_splits prod.splits outcome.splits option.splits sum.splits
        dest!: GetCurrentSitemap_mu SaveSitemap_DB)
qed

lemma addCmd_never_succeeds: "addCmd cfg robots w url cf pr \<noteq> Returns None sm' w'"
  by (auto simp: addCmd_def Let_def AddURL_never_succeeds
      split: outcome.splits option.splits)

lemma AddURL_rejects_matching:
  assumes "\<not> mu (DB sm)" "RespectRobots (Config sm)" "RobotsRules sm p = Some b"
    "HasPrefix url p"
  shows "AddURL sm w url cf pr = Returns (Some PolicyRejected) sm w"
proof -
  have "\<not> IsURLAllowed (sm\<lparr>DB := (DB sm)\<lparr>mu := True\<rparr>\<rparr>) url"
    using assms by (auto simp: IsURLAllowed_def)
  then show ?thesis
    using assms(1) by (simp add: AddURL_def Let_def unlock_lock_mu)
qed

lemma IsURLAllowed_lock [simp]:
  "IsURLAllowed (sm\<lparr>DB := d\<rparr>) url = IsURLAllowed sm url"
  by (simp add: IsURLAllowed_def)

lemma AddURL_rejects_duplicate:
  assumes "\<not> mu (DB sm)" "IsURLAllowed sm url" "map_index (URLHashes (DB sm)) (HashURL url)"
  shows "AddURL sm w url cf pr = Returns (Some DuplicateURL) sm w"
  using assms by (simp add: AddURL_def Let_def unlock_lock_mu)

subsection \<open>Successful calls\<close>

text \<open>What a successful call leaves behind.\<close>

lemma SaveDB_None:
  "SaveDB sm w = Returns None sm' w' \<Longrightarrow>
     \<not> mu (DB sm) \<and>
     sm' = sm\<lparr>DB := (DB sm)\<lparr>mu := False, LastUpdated := clock w\<rparr>\<rparr> \<and>
     files w' = (files w)(DBPath sm @ ''.tmp'' := None,
           DBPath sm \<mapsto> Doc (DBJson (Sitemaps (DB sm)) (Some (URLHashes (DB sm)))
             (CurrentSitemap (DB sm)) (clock w))) \<and>
     clock w' = clock w"
  by (auto simp: SaveDB_def Let_def os_WriteFile_def os_Rename_def fun_eq_iff
      split: if_splits option.splits)

lemma GenerateSitemapIndex_None:
  "GenerateSitemapIndex sm w = Returns None sm' w' \<Longrightarrow>
     sm' = sm \<and>
     files w' = (files w)
           (filepath_Join (OutputDir (Config sm)) ''sitemap_index.xml'' @ ''.tmp'' := None,
            filepath_Join (OutputDir (Config sm)) ''sitemap_index.xml'' \<mapsto>
              Doc (IndexXml \<lparr>Index_Xmlns = SITEMAP_NAMESPACE,
                Index_Sitemaps = map (index_entry (Config sm)) (Sitemaps (DB sm))\<rparr>)) \<and>
     clock w' = clock w"
  by (auto simp: GenerateSitemapIndex_def Let_def os_WriteFile_def os_Rename_def fun_eq_iff
      split: if_splits option.splits)


lemma LoadDB_None:
  assumes "LoadDB sm w = Returns None sm' w'"
  shows "Config sm' = Config sm \<and> DBPath sm' = DBPath sm \<and>
     RobotsRules sm' = RobotsRules sm \<and> \<not> fileLock sm' \<and> \<not> mu (DB sm') \<and>
     stored_db w (DBPath sm) = Some (db_triple (DB sm')) \<and>
     stored_db w' (DBPath sm) = Some (db_triple (DB sm')) \<and>
     (\<forall>p. p \<noteq> DBPath sm \<longrightarrow> p \<noteq> DBPath sm @ ''.tmp'' \<longrightarrow> files w' p = files w p) \<and>
     clock w' = clock w"
proof (cases "files w (DBPath sm)")
  case None
  let ?sm1 = "sm\<lparr>fileLock := True, DB := empty_Database\<lparr>LastUpdated := clock w\<rparr>\<rparr>"
  from assms None obtain s where s: "SaveDB ?sm1 w = Returns None s w'"
    and sm': "sm' = s\<lparr>fileLock := False\<rparr>"
    by (auto simp: LoadDB_def Let_def split: if_splits outcome.splits)
  from SaveDB_None [OF s] sm' show ?thesis
    using None by (simp add: stored_db_def db_triple_def empty_Database_def)
next
  case (Some f)
  with assms show ?thesis
    by (auto simp: LoadDB_def Let_def stored_db_def db_triple_def
        split: if_splits fnode.splits content.splits)
qed


lemma NewSitemapManager_None:
  assumes "NewSitemapManager cfg robots w = Returns None sm' w'"
  shows "Config sm' = cfg \<and>
     DBPath sm' = filepath_Join (OutputDir cfg) ''.sitemaptool_db.json'' \<and>
     RobotsRules sm' = (if RespectRobots cfg then robots else Map.empty) \<and>
     \<not> fileLock sm' \<and> \<not> mu (DB sm') \<and>
     stored_db w (filepath_Join (OutputDir cfg) ''.sitemaptool_db.json'') =
           Some (db_triple (DB sm')) \<and>
     stored_db w' (filepath_Join (OutputDir cfg) ''.sitemaptool_db.json'') =
           Some (db_triple (DB sm')) \<and>
     (\<forall>p. p \<noteq> filepath_Join (OutputDir cfg) ''.sitemaptool_db.json'' \<longrightarrow>
           p \<noteq> filepath_Join (OutputDir cfg) ''.sitemaptool_db.json'' @ ''.tmp'' \<longrightarrow>
           files w' p = files w p) \<and>
     clock w' = clock w"
proof -
  let ?sm0 = "\<lparr>Config = cfg, DB = empty_Database,
               DBPath = filepath_Join (OutputDir cfg) ''.sitemaptool_db.json'',
               RobotsRules = Map.empty, fileLock = False\<rparr>"
  from assms obtain s where s: "LoadDB ?sm0 w = Returns None s w'"
    and sm': "sm' = (if RespectRobots cfg then s\<lparr>RobotsRules := robots\<rparr> else s)"
    by (auto simp: NewSitemapManager_def Let_def split: outcome.splits option.splits)
  from LoadDB_None [OF s] sm' show ?thesis
    by (simp add: db_triple_def)
qed

text \<open>A successful \<^verbatim>\<open>create\<close>: the store it loaded, with one more partition.\<close>

lemma createCmd_None:
  assumes "createCmd cfg robots w = Returns None sm' w'"
  obtains ss hs cur where
    "stored_db w (filepath_Join (OutputDir cfg) ''.sitemaptool_db.json'') = Some (ss, hs, cur)"
    and "Sitemaps (DB sm') =
       ss @ [\<lparr>Filename = Sprintf_sitemap (SitemapPrefix cfg) (length ss + 1),
               URLCount = 0, LastMod = clock w\<rparr>]"
    and "URLHashes (DB sm') = hs"
    and "CurrentSitemap (DB sm') = Sprintf_sitemap (SitemapPrefix cfg) (length ss + 1)"
    and "files w' (filepath_Join (OutputDir cfg) ''.sitemaptool_db.json'') =
       Some (Doc (DBJson (Sitemaps (DB sm')) (Some hs) (CurrentSitemap (DB sm')) (clock w)))"
    and "files w' (filepath_Join (OutputDir cfg) ''sitemap_index.xml'') =
       Some (Doc (IndexXml \<lparr>Index_Xmlns = SITEMAP_NAMESPACE,
               Index_Sitemaps = map (index_entry cfg) (Sitemaps (DB sm'))\<rparr>))"
    and "\<And>p. p \<noteq> filepath_Join (OutputDir cfg) ''.sitemaptool_db.json'' \<Longrightarrow>
          p \<noteq> filepath_Join (OutputDir cfg) ''.sitemaptool_db.json'' @ ''.tmp'' \<Longrightarrow>
          p \<noteq> filepath_Join (OutputDir cfg) ''sitemap_index.xml'' \<Longrightarrow>
          p \<noteq> filepath_Join (OutputDir cfg) ''sitemap_index.xml'' @ ''.tmp'' \<Longrightarrow>
          files w' p = files w p"
proof -
  let ?db = "filepath_Join (OutputDir cfg) ''.sitemaptool_db.json''"
  let ?idx = "filepath_Join (OutputDir cfg) ''sitemap_index.xml''"
  from assms obtain sm0 w0 where n: "NewSitemapManager cfg robots w = Returns None sm0 w0"
    by (auto simp: createCmd_def split: outcome.splits option.splits)
  note N = NewSitemapManager_None [OF n]
  obtain fn sm1 where c: "CreateNewSitemap sm0 w0 = (fn, sm1)"
    by (cases "CreateNewSitemap sm0 w0")
  from assms n c obtain sm2 w2 where s: "SaveDB sm1 w0 = Returns None sm2 w2"
    and g: "GenerateSitemapIndex sm2 w2 = Returns None sm' w'"
    by (auto simp: createCmd_def split: outcome.splits option.splits)
  note S = SaveDB_None [OF s]
  note G = GenerateSitemapIndex_None [OF g]
  let ?name = "Sprintf_sitemap (SitemapPrefix cfg) (length (Sitemaps (DB sm0)) + 1)"
  have sm1: "sm1 = sm0\<lparr>DB := (DB sm0)
      \<lparr>Sitemaps := Sitemaps (DB sm0) @ [\<lparr>Filename = ?name, URLCount = 0, LastMod = clock w\<rparr>],
       CurrentSitemap := ?name\<rparr>\<rparr>"
    using c N by (auto simp: CreateNewSitemap_def Let_def)
  have sm2: "sm2 = sm1\<lparr>DB := (DB sm1)\<lparr>mu := False, LastUpdated := clock w\<rparr>\<rparr>"
    using S N by simp
  have sm': "sm' = sm2"
    using G by simp
  have cfg2: "Config sm2 = cfg"
    using sm2 sm1 N by simp
  have fw2: "files w2 = (files w0)(?db @ ''.tmp'' := None,
       ?db \<mapsto> Doc (DBJson (Sitemaps (DB sm1)) (Some (URLHashes (DB sm1)))
           (CurrentSitemap (DB sm1)) (clock w)))"
    using S N sm1 by simp
  have fw': "files w' = (files w2)(?idx @ ''.tmp'' := None,
       ?idx \<mapsto> Doc (IndexXml \<lparr>Index_Xmlns = SITEMAP_NAMESPACE,
           Index_Sitemaps = map (index_entry cfg) (Sitemaps (DB sm2))\<rparr>))"
    using G cfg2 by simp
  have fw0: "\<And>p. p \<noteq> ?db \<Longrightarrow> p \<noteq> ?db @ ''.tmp'' \<Longrightarrow> files w0 p = files w p"
    using N by blast
  show thesis
  proof (rule that [of "Sitemaps (DB sm0)" "URLHashes (DB sm0)" "CurrentSitemap (DB sm0)"])
    show "stored_db w ?db =
        Some (Sitemaps (DB sm0), URLHashes (DB sm0), CurrentSitemap (DB sm0))"
      using N by (simp add: db_triple_def)
    show "Sitemaps (DB sm') =
        Sitemaps (DB sm0) @ [\<lparr>Filename = ?name, URLCount = 0, LastMod = clock w\<rparr>]"
      by (simp add: sm' sm2 sm1)
    show "URLHashes (DB sm') = URLHashes (DB sm0)"
      by (simp add: sm' sm2 sm1)
    show "CurrentSitemap (DB sm') = ?name"
      by (simp add: sm' sm2 sm1)
    show "files w' ?db =
        Some (Doc (DBJson (Sitemaps (DB sm')) (Some (URLHashes (DB sm0)))
          (CurrentSitemap (DB sm')) (clock w)))"
      by (simp add: fw' fw2 index_not_db [symmetric] sm' sm2 sm1)
    show "files w' ?idx =
        Some (Doc (IndexXml \<lparr>Index_Xmlns = SITEMAP_NAMESPACE,
          Index_Sitemaps = map (index_entry cfg) (Sitemaps (DB sm'))\<rparr>))"
      by (simp add: fw' sm')
    show "files w' p = files w p"
      if "p \<noteq> ?db" "p \<noteq> ?db @ ''.tmp''" "p \<noteq> ?idx" "p \<noteq> ?idx @ ''.tmp''" for p
      using that by (simp add: fw' fw2 fw0)
  qed
qed

subsection \<open>Outcomes and runs\<close>

lemma outcome_collapse:
  "returned X = Some v \<Longrightarrow> X = Returns v (manager_of X) (world_of X)"
  by (cases X) auto

lemma addCmd_no_success: "returned (addCmd cfg robots w url changefreq priority) \<noteq> Some None"
proof
  assume "returned (addCmd cfg robots w url changefreq priority) = Some None"
  then have "addCmd cfg robots w url changefreq priority =
      Returns None (manager_of (addCmd cfg robots w url changefreq priority))
        (world_of (addCmd cfg robots w url changefreq priority))"
    by (rule outcome_collapse)
  with addCmd_never_succeeds show False
    by blast
qed

lemma AddURL_no_success: "returned (AddURL sm w url changefreq priority) \<noteq> Some None"
proof
  assume "returned (AddURL sm w url changefreq priority) = Some None"
  then have "AddURL sm w url changefreq priority =
      Returns None (manager_of (AddURL sm w url changefreq priority))
        (world_of (AddURL sm w url changefreq priority))"
    by (rule outcome_collapse)
  with AddURL_never_succeeds show False
    by blast
qed





subsection \<open>Resolving and writing the partition\<close>

text \<open>The loop of \<^verbatim>\<open>NeedNewSitemap\<close> decides on the first partition with the current name.\<close>

lemma NeedNewSitemap_loop_find:
  "NeedNewSitemap_loop ss cur =
     (case find (\<lambda>p. Filename p = cur) ss of
        None \<Rightarrow> False
      | Some p \<Rightarrow> URLCount p \<ge> MAX_URLS_PER_SITEMAP)"
  by (induction ss) auto

lemma GetCurrentSitemap_creates_iff:
  "GetCurrentSitemap sm w =
     (if CurrentSitemap (DB sm) = [] \<or>
         (\<exists>p. find (\<lambda>p. Filename p = CurrentSitemap (DB sm)) (Sitemaps (DB sm)) = Some p \<and>
              URLCount p \<ge> 50000)
      then CreateNewSitemap sm w
      else (CurrentSitemap (DB sm), sm))"
  by (auto simp: GetCurrentSitemap_def NeedNewSitemap_def NeedNewSitemap_loop_find
      MAX_URLS_PER_SITEMAP_def split: option.splits)

lemma GetCurrentSitemap_lock:
  "GetCurrentSitemap (sm\<lparr>DB := (DB sm)\<lparr>mu := b\<rparr>\<rparr>) w =
     (fst (GetCurrentSitemap sm w),
      (snd (GetCurrentSitemap sm w))\<lparr>DB := (DB (snd (GetCurrentSitemap sm w)))\<lparr>mu := b\<rparr>\<rparr>)"
  by (simp add: GetCurrentSitemap_def NeedNewSitemap_def CreateNewSitemap_def Let_def)

lemma GetCurrentSitemap_frame:
  "Config (snd (GetCurrentSitemap sm w)) = Config sm \<and>
   fileLock (snd (GetCurrentSitemap sm w)) = fileLock sm"
  by (simp add: GetCurrentSitemap_def CreateNewSitemap_def Let_def)

lemma LoadSitemap_Config:
  "Config sm' = Config sm \<Longrightarrow> LoadSitemap sm' w f = LoadSitemap sm w f"
  by (simp add: LoadSitemap_def)

lemma LoadSitemap_fails:
  "LoadSitemap sm w f = Inl e \<Longrightarrow>
     files w (filepath_Join (OutputDir (Config sm)) f) = Some Unreadable \<or>
     (\<exists>c. files w (filepath_Join (OutputDir (Config sm)) f) = Some (Doc c) \<and>
          (\<forall>u. c \<noteq> UrlsetXml u))"
  by (auto simp: LoadSitemap_def os_ReadFile_def
      split: option.splits fnode.splits content.splits)

lemma SaveSitemap_writes:
  assumes "\<not> fileLock sm"
    and "filepath_Join (OutputDir (Config sm)) f @ ''.tmp'' \<notin> wr_fail w"
    and "filepath_Join (OutputDir (Config sm)) f \<notin> mv_fail w"
  shows "\<exists>w1. SaveSitemap sm w f u = Returns None sm w1 \<and>
           files w1 (filepath_Join (OutputDir (Config sm)) f) = Some (Doc (UrlsetXml u))"
proof -
  have "sm\<lparr>fileLock := True, fileLock := False\<rparr> = sm"
    using assms(1) by (cases sm) simp
  then show ?thesis
    using assms by (simp add: SaveSitemap_def Let_def os_WriteFile_def os_Rename_def)
qed

subsection \<open>What an add leaves in memory\<close>







lemma AddURL_accepted:
  assumes "\<not> mu (DB sm)" and "IsURLAllowed sm url"
    and "\<not> map_index (URLHashes (DB sm)) (HashURL url)"
  shows "AddURL sm w url cf pr =
     (case SaveSitemap (staged_manager sm w url) w (fst (GetCurrentSitemap sm w))
             (staged_urlset sm w url cf pr) of
        Blocks s w1 \<Rightarrow> Blocks s w1
      | Returns None s w1 \<Rightarrow>
          Blocks (UpdateSitemapInfo s w1 (fst (GetCurrentSitemap sm w))
                    (int (length (URLs (staged_urlset sm w url cf pr))))) w1
      | Returns (Some err) s w1 \<Rightarrow> Returns (Some err) (s\<lparr>DB := (DB s)\<lparr>mu := False\<rparr>\<rparr>) w1)"
proof -
  let ?f = "fst (GetCurrentSitemap sm w)"
  let ?sm2 = "(snd (GetCurrentSitemap sm w))
      \<lparr>DB := (DB (snd (GetCurrentSitemap sm w)))\<lparr>mu := True\<rparr>\<rparr>"
  let ?sm3 = "?sm2\<lparr>DB := (DB ?sm2)
      \<lparr>URLHashes := (URLHashes (DB ?sm2))(HashURL url \<mapsto> True)\<rparr>\<rparr>"
  let ?set = "case LoadSitemap ?sm2 w ?f of
      Inl err \<Rightarrow> \<lparr>Xmlns = SITEMAP_NAMESPACE, URLs = []\<rparr> | Inr us \<Rightarrow> us"
  let ?u = "?set\<lparr>URLs := URLs ?set @
      [\<lparr>Loc = url, URL_LastMod = Format_YMD (clock w), ChangeFreq = cf, Priority = pr\<rparr>]\<rparr>"
  have load: "LoadSitemap ?sm2 w ?f = LoadSitemap sm w ?f"
    using LoadSitemap_Config [of ?sm2 sm w ?f] GetCurrentSitemap_frame [of sm w] by simp
  have st: "staged_manager sm w url = ?sm3"
    by (simp add: staged_manager_def Let_def)
  have su: "staged_urlset sm w url cf pr = ?u"
    unfolding load by (simp add: staged_urlset_def Let_def)
  show ?thesis
  proof (cases "SaveSitemap ?sm3 w ?f ?u")
    case (Blocks s w1)
    have "AddURL sm w url cf pr = Blocks s w1"
      using assms Blocks by (simp add: AddURL_def Let_def GetCurrentSitemap_lock)
    then show ?thesis
      unfolding st su using Blocks by simp
  next
    case (Returns e s w1)
    from SaveSitemap_DB [OF Returns] have "mu (DB s)"
      by simp
    then have "mu (DB (UpdateSitemapInfo s w1 ?f (int (length (URLs ?u)))))"
      by (simp add: UpdateSitemapInfo_mu)
    then have blocks: "SaveDB (UpdateSitemapInfo s w1 ?f (int (length (URLs ?u)))) w1 =
        Blocks (UpdateSitemapInfo s w1 ?f (int (length (URLs ?u)))) w1"
      by (rule SaveDB_locked)
    show ?thesis
    proof (cases e)
      case None
      have "AddURL sm w url cf pr =
          Blocks (UpdateSitemapInfo s w1 ?f (int (length (URLs ?u)))) w1"
        using assms Returns None blocks
        by (simp add: AddURL_def Let_def GetCurrentSitemap_lock)
      then show ?thesis
        unfolding st su using Returns None by simp
    next
      case (Some err)
      have "AddURL sm w url cf pr = Returns (Some err) (s\<lparr>DB := (DB s)\<lparr>mu := False\<rparr>\<rparr>) w1"
        using assms Returns Some by (simp add: AddURL_def Let_def GetCurrentSitemap_lock)
      then show ?thesis
        unfolding st su using Returns Some by simp
    qed
  qed
qed









subsection \<open>The index generator\<close>

text \<open>
  The document that \<^verbatim>\<open>GenerateSitemapIndex\<close> writes has one entry for each partition of the
  store, in the order of the store; the location of an entry is the base URL without one
  trailing slash, then a slash, then the partition's file name.
\<close>

lemma GenerateSitemapIndex_lists_partitions:
  assumes "returned (GenerateSitemapIndex sm w) = Some None"
  shows "files (world_of (GenerateSitemapIndex sm w))
           (filepath_Join (OutputDir (Config sm)) ''sitemap_index.xml'') =
         Some (Doc (IndexXml \<lparr>Index_Xmlns = SITEMAP_NAMESPACE,
           Index_Sitemaps =
             map (\<lambda>p. \<lparr>Entry_Loc = TrimSuffix (BaseURL (Config sm)) ''/'' @ ''/'' @ Filename p,
                       Entry_LastMod = Format_YMD (LastMod p)\<rparr>)
               (Sitemaps (DB sm))\<rparr>))"
proof -
  have "GenerateSitemapIndex sm w =
      Returns None (manager_of (GenerateSitemapIndex sm w)) (world_of (GenerateSitemapIndex sm w))"
    using assms by (rule outcome_collapse)
  from GenerateSitemapIndex_None [OF this] show ?thesis
    by (simp add: index_entry_def [abs_def])
qed

lemma GenerateSitemapIndex_lists_partitions_example:
  "returned (GenerateSitemapIndex two_partition_manager empty_disk) = Some None \<and>
   files (world_of (GenerateSitemapIndex two_partition_manager empty_disk))
     ''./sitemaps/sitemap_index.xml'' =
   Some (Doc (IndexXml \<lparr>Index_Xmlns = SITEMAP_NAMESPACE,
     Index_Sitemaps =
       [\<lparr>Entry_Loc = ''https://example.com/sitemap_1.xml'', Entry_LastMod = Format_YMD 3\<rparr>,
        \<lparr>Entry_Loc = ''https://example.com/sitemap_2.xml'', Entry_LastMod = Format_YMD 5\<rparr>]\<rparr>))"
proof -
  have r: "returned (GenerateSitemapIndex two_partition_manager empty_disk) = Some None"
    by (simp add: eval_defs)
  from GenerateSitemapIndex_lists_partitions [OF r] r show ?thesis
    by (simp add: two_partition_manager_def DefaultConfig_def filepath_Join_def TrimSuffix_def
        suffix_to_prefix)
qed

lemma AddURL_no_index_error:
  "returned (AddURL sm w url cf pr) \<noteq> Some (Some IndexIOError)"
proof (cases "mu (DB sm) \<or> \<not> IsURLAllowed sm url \<or> map_index (URLHashes (DB sm)) (HashURL url)")
  case True
  then show ?thesis
    by (auto simp: AddURL_def Let_def)
next
  case False
  then have a: "\<not> mu (DB sm)" "IsURLAllowed sm url"
    "\<not> map_index (URLHashes (DB sm)) (HashURL url)"
    by simp_all
  show ?thesis
  proof (cases "SaveSitemap (staged_manager sm w url) w (fst (GetCurrentSitemap sm w))
      (staged_urlset sm w url cf pr)")
    case (Blocks s w1)
    with AddURL_accepted [OF a, of w cf pr] show ?thesis by simp
  next
    case (Returns e s w1)
    show ?thesis
    proof (cases e)
      case None
      with AddURL_accepted [OF a, of w cf pr] Returns show ?thesis by simp
    next
      case (Some err)
      with SaveSitemap_error Returns have "err = PartitionIOError" by blast
      with AddURL_accepted [OF a, of w cf pr] Returns Some show ?thesis by simp
    qed
  qed
qed

section \<open>The claims\<close>

subsection \<open>C1: policy filter\<close>

text \<open>
  C1 says that a URL matched by a disallowed path prefix is rejected with
  \<open>PolicyRejected\<close>, that with the prefix \<^verbatim>\<open>/private\<close> the URL
  \<^verbatim>\<open>https://example.com/private/page\<close> is rejected, and that
  \<^verbatim>\<open>https://example.com/public/page\<close> is added. The code tests the prefix against the whole
  URL string, scheme and host included, so the rule \<^verbatim>\<open>/private\<close> allows the first URL: the
  add goes on, writes the URL into the partition document and then blocks in \<^verbatim>\<open>SaveDB\<close>.
  The add of the second URL blocks in the same way and does not return either.
\<close>

theorem C1_private_page_not_rejected:
  "IsURLAllowed (manager_of (NewSitemapManager DefaultConfig private_rules empty_disk))
     ''https://example.com/private/page'' \<and>
   returned (addCmd DefaultConfig private_rules empty_disk
     ''https://example.com/private/page'' [] 0) = None \<and>
   partition_locs (world_of (addCmd DefaultConfig private_rules empty_disk
       ''https://example.com/private/page'' [] 0)) ''./sitemaps/sitemap_1.xml'' =
     [''https://example.com/private/page''] \<and>
   returned (addCmd DefaultConfig private_rules empty_disk
     ''https://example.com/public/page'' [] 0) = None"
  by (simp add: eval_defs partition_locs_def)

subsection \<open>C2: rolling over at capacity\<close>

text \<open>
  C2 says that 50001 accepted adds on a fresh store leave two partitions, of 50000 and
  of 1 entries. No add is ever accepted to the end: \<^verbatim>\<open>AddURL\<close> holds the store's mutex when
  it calls \<^verbatim>\<open>SaveDB\<close>, which locks it again, so the command never returns success. The
  first add on a fresh store stops there: in memory the partition \<^verbatim>\<open>sitemap_1.xml\<close> has one
  entry and the partition document holds the URL, but the store file still has no
  partition.
\<close>

theorem C2_no_add_completes:
  "returned (addCmd cfg robots w url changefreq priority) \<noteq> Some None \<and>
   returned first_add = None \<and>
   map (\<lambda>p. (Filename p, URLCount p)) (Sitemaps (DB (manager_of first_add))) =
     [(''sitemap_1.xml'', 1)] \<and>
   stored_partitions (world_of first_add) ''./sitemaps/.sitemaptool_db.json'' = [] \<and>
   partition_locs (world_of first_add) ''./sitemaps/sitemap_1.xml'' = [''https://example.com/a'']"
proof -
  have "returned first_add = None \<and>
   map (\<lambda>p. (Filename p, URLCount p)) (Sitemaps (DB (manager_of first_add))) =
     [(''sitemap_1.xml'', 1)] \<and>
   stored_partitions (world_of first_add) ''./sitemaps/.sitemaptool_db.json'' = [] \<and>
   partition_locs (world_of first_add) ''./sitemaps/sitemap_1.xml'' = [''https://example.com/a'']"
    by (simp add: first_add_def eval_defs stored_partitions_def stored_db_def
        partition_locs_def)
  with addCmd_no_success show ?thesis by simp
qed

subsection \<open>C3: adding the same URL twice\<close>

text \<open>
  C3 says that the second add of a URL fails with \<open>DuplicateURL\<close> and leaves the entry
  counts unchanged, the first having succeeded. No call of \<^verbatim>\<open>AddURL\<close> returns success. The
  first add blocks before the store is saved, so the second command loads a store
  without the hash: it is not rejected, it appends the URL to the partition document a
  second time and blocks in its turn. The store file records neither add.
\<close>

theorem C3_second_add_not_duplicate:
  "returned (AddURL sm w url changefreq priority) \<noteq> Some None \<and>
   returned first_add = None \<and>
   returned second_add = None \<and>
   partition_locs (world_of first_add) ''./sitemaps/sitemap_1.xml'' =
     [''https://example.com/a''] \<and>
   partition_locs (world_of second_add) ''./sitemaps/sitemap_1.xml'' =
     [''https://example.com/a'', ''https://example.com/a''] \<and>
   stored_db (world_of second_add) ''./sitemaps/.sitemaptool_db.json'' =
     Some ([], Map.empty, [])"
proof -
  have "returned first_add = None \<and>
   returned second_add = None \<and>
   partition_locs (world_of first_add) ''./sitemaps/sitemap_1.xml'' =
     [''https://example.com/a''] \<and>
   partition_locs (world_of second_add) ''./sitemaps/sitemap_1.xml'' =
     [''https://example.com/a'', ''https://example.com/a''] \<and>
   stored_db (world_of second_add) ''./sitemaps/.sitemaptool_db.json'' =
     Some ([], Map.empty, [])"
    by (simp add: second_add_def first_add_def eval_defs stored_db_def partition_locs_def)
  with AddURL_no_success show ?thesis by simp
qed

subsection \<open>C4: partitions below capacity\<close>




subsection \<open>C5: entry counts and hashes\<close>



subsection \<open>C6: a partition document that cannot be loaded\<close>

text \<open>
  C6 as the specification states it, an add fails with \<open>PartitionIOError\<close> when the
  partition document exists but is corrupt or unreadable, fails on a directory whose
  \<^verbatim>\<open>sitemap_1.xml\<close> is garbage, and on one where it is unreadable: \<^verbatim>\<open>LoadSitemap\<close> fails, the
  add does not return that error, and the file is replaced by a document that holds the
  new entry alone.
\<close>

theorem C6_corrupt_partition_counterexample:
  "LoadSitemap (manager_of (NewSitemapManager DefaultConfig Map.empty corrupt_disk))
       corrupt_disk ''sitemap_1.xml'' = Inl PartitionIOError \<and>
   returned (addCmd DefaultConfig Map.empty corrupt_disk ''https://example.com/a'' [] 0) = None \<and>
   files (world_of (addCmd DefaultConfig Map.empty corrupt_disk ''https://example.com/a'' [] 0))
       ''./sitemaps/sitemap_1.xml'' =
     Some (Doc (UrlsetXml \<lparr>Xmlns = SITEMAP_NAMESPACE,
       URLs = [\<lparr>Loc = ''https://example.com/a'', URL_LastMod = Format_YMD 0,
                ChangeFreq = ''weekly'', Priority = 0.5\<rparr>]\<rparr>)) \<and>
   LoadSitemap (manager_of (NewSitemapManager DefaultConfig Map.empty unreadable_disk))
       unreadable_disk ''sitemap_1.xml'' = Inl PartitionIOError \<and>
   returned (addCmd DefaultConfig Map.empty unreadable_disk ''https://example.com/a'' [] 0) = None \<and>
   files (world_of (addCmd DefaultConfig Map.empty unreadable_disk ''https://example.com/a'' [] 0))
       ''./sitemaps/sitemap_1.xml'' =
     Some (Doc (UrlsetXml \<lparr>Xmlns = SITEMAP_NAMESPACE,
       URLs = [\<lparr>Loc = ''https://example.com/a'', URL_LastMod = Format_YMD 0,
                ChangeFreq = ''weekly'', Priority = 0.5\<rparr>]\<rparr>))"
  by (simp add: eval_defs)

text \<open>
  C6, amended: when \<^verbatim>\<open>LoadSitemap\<close> fails, which it does only on a partition document that
  exists, \<^verbatim>\<open>AddURL\<close> does not pass that failure on: for a URL that is allowed and new, it
  puts an empty document in the place of the one it could not load, appends the entry
  and writes the partition, so that, when the write succeeds, the file holds the new
  entry alone and the add has not failed with \<open>PartitionIOError\<close>.
\<close>

theorem C6_load_failure_is_replaced:
  assumes "\<not> mu (DB sm)" and "\<not> fileLock sm"
    and "IsURLAllowed sm url" and "\<not> map_index (URLHashes (DB sm)) (HashURL url)"
    and "LoadSitemap sm w (fst (GetCurrentSitemap sm w)) = Inl e"
    and "filepath_Join (OutputDir (Config sm)) (fst (GetCurrentSitemap sm w)) @ ''.tmp''
           \<notin> wr_fail w"
    and "filepath_Join (OutputDir (Config sm)) (fst (GetCurrentSitemap sm w)) \<notin> mv_fail w"
  shows "files w (filepath_Join (OutputDir (Config sm)) (fst (GetCurrentSitemap sm w)))
           \<noteq> None \<and>
         returned (AddURL sm w url changefreq priority) \<noteq> Some (Some PartitionIOError) \<and>
         files (world_of (AddURL sm w url changefreq priority))
             (filepath_Join (OutputDir (Config sm)) (fst (GetCurrentSitemap sm w))) =
           Some (Doc (UrlsetXml \<lparr>Xmlns = SITEMAP_NAMESPACE,
             URLs = [\<lparr>Loc = url, URL_LastMod = Format_YMD (clock w),
                      ChangeFreq = changefreq, Priority = priority\<rparr>]\<rparr>))"
proof -
  let ?f = "fst (GetCurrentSitemap sm w)"
  let ?sm2 = "(snd (GetCurrentSitemap sm w))
      \<lparr>DB := (DB (snd (GetCurrentSitemap sm w)))\<lparr>mu := True\<rparr>\<rparr>"
  let ?sm3 = "?sm2\<lparr>DB := (DB ?sm2)
      \<lparr>URLHashes := (URLHashes (DB ?sm2))(HashURL url \<mapsto> True)\<rparr>\<rparr>"
  let ?u = "\<lparr>Xmlns = SITEMAP_NAMESPACE,
             URLs = [\<lparr>Loc = url, URL_LastMod = Format_YMD (clock w),
                      ChangeFreq = changefreq, Priority = priority\<rparr>]\<rparr>"
  have cfg: "Config ?sm3 = Config sm" and fl: "\<not> fileLock ?sm3" and mu3: "mu (DB ?sm3)"
    using GetCurrentSitemap_frame [of sm w] assms(2) by simp_all
  have load: "LoadSitemap ?sm2 w ?f = Inl e"
    using assms(5) LoadSitemap_Config [of ?sm2 sm w ?f] GetCurrentSitemap_frame [of sm w]
    by simp
  from SaveSitemap_writes [of ?sm3 ?f w ?u] cfg fl assms(6,7)
  obtain w1 where save: "SaveSitemap ?sm3 w ?f ?u = Returns None ?sm3 w1"
    and written: "files w1 (filepath_Join (OutputDir (Config sm)) ?f) = Some (Doc (UrlsetXml ?u))"
    by auto
  have "mu (DB (UpdateSitemapInfo ?sm3 w1 ?f 1))"
    using mu3 by (simp add: UpdateSitemapInfo_mu)
  then have blocks: "SaveDB (UpdateSitemapInfo ?sm3 w1 ?f 1) w1 =
      Blocks (UpdateSitemapInfo ?sm3 w1 ?f 1) w1"
    by (rule SaveDB_locked)
  have "AddURL sm w url changefreq priority = Blocks (UpdateSitemapInfo ?sm3 w1 ?f 1) w1"
    using assms(1,3,4) load save blocks
    by (simp add: AddURL_def Let_def GetCurrentSitemap_lock)
  moreover have "files w (filepath_Join (OutputDir (Config sm)) ?f) \<noteq> None"
    using LoadSitemap_fails [OF assms(5)] by auto
  ultimately show ?thesis
    using written by simp
qed

theorem C6_load_failure_is_replaced_witness:
  "LoadSitemap url_rules_manager corrupt_disk
       (fst (GetCurrentSitemap url_rules_manager corrupt_disk)) = Inl PartitionIOError \<and>
   files corrupt_disk ''./sitemaps/sitemap_1.xml'' \<noteq> None \<and>
   returned (AddURL url_rules_manager corrupt_disk ''https://example.com/a'' ''daily'' 1)
     \<noteq> Some (Some PartitionIOError) \<and>
   files (world_of (AddURL url_rules_manager corrupt_disk ''https://example.com/a'' ''daily'' 1))
       ''./sitemaps/sitemap_1.xml'' =
     Some (Doc (UrlsetXml \<lparr>Xmlns = SITEMAP_NAMESPACE,
       URLs = [\<lparr>Loc = ''https://example.com/a'', URL_LastMod = Format_YMD 0,
                ChangeFreq = ''daily'', Priority = 1\<rparr>]\<rparr>))"
proof -
  have a: "\<not> mu (DB url_rules_manager)" "\<not> fileLock url_rules_manager"
    "IsURLAllowed url_rules_manager ''https://example.com/a''"
    "\<not> map_index (URLHashes (DB url_rules_manager)) (HashURL ''https://example.com/a'')"
    by (simp_all add: eval_defs)
  have l: "LoadSitemap url_rules_manager corrupt_disk
      (fst (GetCurrentSitemap url_rules_manager corrupt_disk)) = Inl PartitionIOError"
    by (simp add: eval_defs)
  have p: "filepath_Join (OutputDir (Config url_rules_manager))
      (fst (GetCurrentSitemap url_rules_manager corrupt_disk)) = ''./sitemaps/sitemap_1.xml''"
    by (simp add: eval_defs)
  have w: "filepath_Join (OutputDir (Config url_rules_manager))
      (fst (GetCurrentSitemap url_rules_manager corrupt_disk)) @ ''.tmp'' \<notin> wr_fail corrupt_disk"
    "filepath_Join (OutputDir (Config url_rules_manager))
      (fst (GetCurrentSitemap url_rules_manager corrupt_disk)) \<notin> mv_fail corrupt_disk"
    by (simp_all add: corrupt_disk_def empty_disk_def)
  have c: "clock corrupt_disk = 0"
    by (simp add: corrupt_disk_def empty_disk_def)
  from C6_load_failure_is_replaced [OF a l w, of "''daily''" 1] l show ?thesis
    by (simp only: p c) simp
qed

subsection \<open>C7: the index after an add\<close>

text \<open>
  C7 says that after a successful add the regenerated index lists every partition of
  the store. \<^verbatim>\<open>AddURL\<close> calls \<^verbatim>\<open>GenerateSitemapIndex\<close> only after \<^verbatim>\<open>SaveDB\<close>, in which it blocks, so
  no add regenerates the index: no call returns success or the error of the index
  generator, and after the first add on a fresh store the store in memory has the
  partition \<^verbatim>\<open>sitemap_1.xml\<close> with one entry, its document is written, and there is no index
  document at all.
\<close>

theorem C7_add_leaves_no_index:
  "returned (AddURL sm w url changefreq priority) \<noteq> Some None \<and>
   returned (AddURL sm w url changefreq priority) \<noteq> Some (Some IndexIOError) \<and>
   returned first_add = None \<and>
   map (\<lambda>p. (Filename p, URLCount p)) (Sitemaps (DB (manager_of first_add))) =
     [(''sitemap_1.xml'', 1)] \<and>
   partition_locs (world_of first_add) ''./sitemaps/sitemap_1.xml'' =
     [''https://example.com/a''] \<and>
   files (world_of first_add) ''./sitemaps/sitemap_index.xml'' = None \<and>
   files (world_of first_add) ''./sitemaps/sitemap_index.xml.tmp'' = None"
proof -
  have "returned first_add = None \<and>
   map (\<lambda>p. (Filename p, URLCount p)) (Sitemaps (DB (manager_of first_add))) =
     [(''sitemap_1.xml'', 1)] \<and>
   partition_locs (world_of first_add) ''./sitemaps/sitemap_1.xml'' =
     [''https://example.com/a''] \<and>
   files (world_of first_add) ''./sitemaps/sitemap_index.xml'' = None \<and>
   files (world_of first_add) ''./sitemaps/sitemap_index.xml.tmp'' = None"
    by (simp add: first_add_def eval_defs partition_locs_def)
  with AddURL_no_success AddURL_no_index_error show ?thesis by simp
qed

subsection \<open>C8: a rejected add changes nothing\<close>

text \<open>
  C8: when \<^verbatim>\<open>AddURL\<close> fails with \<open>PolicyRejected\<close> or \<open>DuplicateURL\<close>, which is before the
  partition is resolved and appended to, the world is as it was before the call: the
  store file, every partition document and the index document are unchanged. The
  manager in memory is unchanged too.
\<close>

theorem C8_rejection_changes_nothing:
  assumes "returned (AddURL sm w url changefreq priority) = Some (Some e)"
    and "e = PolicyRejected \<or> e = DuplicateURL"
  shows "world_of (AddURL sm w url changefreq priority) = w \<and>
         manager_of (AddURL sm w url changefreq priority) = sm"
proof -
  have nl: "\<not> mu (DB sm)"
    using assms(1) by (auto simp: AddURL_def)
  show ?thesis
    using assms nl
    by (auto simp: AddURL_def Let_def SaveDB_locked UpdateSitemapInfo_mu unlock_lock_mu
        split: if_splits prod.splits outcome.splits option.splits sum.splits
        dest!: GetCurrentSitemap_mu SaveSitemap_DB SaveSitemap_error)
qed

theorem C8_rejection_changes_nothing_witness:
  "returned (AddURL url_rules_manager empty_disk ''https://example.com/private/page'' [] 0)
     = Some (Some PolicyRejected) \<and>
   world_of (AddURL url_rules_manager empty_disk ''https://example.com/private/page'' [] 0)
     = empty_disk \<and>
   manager_of (AddURL url_rules_manager empty_disk ''https://example.com/private/page'' [] 0)
     = url_rules_manager"
proof -
  have r: "returned (AddURL url_rules_manager empty_disk
      ''https://example.com/private/page'' [] 0) = Some (Some PolicyRejected)"
    by (simp add: eval_defs)
  from C8_rejection_changes_nothing [OF r] r show ?thesis
    by simp
qed

subsection \<open>C9: saving and loading the store\<close>

text \<open>
  C9: when \<^verbatim>\<open>SaveDB\<close> has succeeded, \<^verbatim>\<open>LoadDB\<close> on the same path (by any manager whose file
  lock is free) succeeds and loads the same partitions by name and entry count, in the
  same order, the same hashes and the same current partition.
\<close>

theorem C9_save_then_load:
  assumes "returned (SaveDB sm w) = Some None"
    and "\<not> fileLock sm0" and "DBPath sm0 = DBPath sm"
  shows "returned (LoadDB sm0 (world_of (SaveDB sm w))) = Some None \<and>
    map (\<lambda>p. (Filename p, URLCount p))
        (Sitemaps (DB (manager_of (LoadDB sm0 (world_of (SaveDB sm w)))))) =
      map (\<lambda>p. (Filename p, URLCount p)) (Sitemaps (DB sm)) \<and>
    URLHashes (DB (manager_of (LoadDB sm0 (world_of (SaveDB sm w))))) = URLHashes (DB sm) \<and>
    CurrentSitemap (DB (manager_of (LoadDB sm0 (world_of (SaveDB sm w))))) =
      CurrentSitemap (DB sm)"
proof -
  have "SaveDB sm w = Returns None (manager_of (SaveDB sm w)) (world_of (SaveDB sm w))"
    using assms(1) by (rule outcome_collapse)
  from SaveDB_None [OF this]
  have f: "files (world_of (SaveDB sm w)) (DBPath sm0) =
      Some (Doc (DBJson (Sitemaps (DB sm)) (Some (URLHashes (DB sm)))
        (CurrentSitemap (DB sm)) (clock w)))"
    using assms(3) by simp
  show ?thesis
    using assms(2) f by (simp add: LoadDB_def Let_def)
qed

theorem C9_save_then_load_witness:
  "returned (SaveDB two_partition_manager empty_disk) = Some None \<and>
   returned (LoadDB url_rules_manager (world_of (SaveDB two_partition_manager empty_disk)))
     = Some None \<and>
   map (\<lambda>p. (Filename p, URLCount p))
     (Sitemaps (DB (manager_of (LoadDB url_rules_manager
        (world_of (SaveDB two_partition_manager empty_disk)))))) =
     [(''sitemap_1.xml'', 50000), (''sitemap_2.xml'', 1)] \<and>
   URLHashes (DB (manager_of (LoadDB url_rules_manager
        (world_of (SaveDB two_partition_manager empty_disk)))))
     = [Sha256Hex ''https://example.com/a'' \<mapsto> True] \<and>
   CurrentSitemap (DB (manager_of (LoadDB url_rules_manager
        (world_of (SaveDB two_partition_manager empty_disk))))) = ''sitemap_2.xml''"
proof -
  have r: "returned (SaveDB two_partition_manager empty_disk) = Some None"
    by (simp add: eval_defs)
  have l: "\<not> fileLock url_rules_manager"
    by (simp add: url_rules_manager_def)
  have p: "DBPath url_rules_manager = DBPath two_partition_manager"
    by (simp add: url_rules_manager_def two_partition_manager_def)
  from C9_save_then_load [OF r l p] r show ?thesis
    by (simp add: two_partition_manager_def)
qed

subsection \<open>C10: create writes no partition document\<close>

text \<open>
  C10 as stated, the index entry of the new partition points at a file that does not
  exist, fails when a document is already at that path. After the add that blocked, the
  directory holds \<^verbatim>\<open>sitemap_1.xml\<close> with one entry and a store without partitions: a
  \<^verbatim>\<open>create\<close> then records the partition \<^verbatim>\<open>sitemap_1.xml\<close> with no entry and indexes it, and
  the file exists. The same happens in a directory that holds the document and no store
  file.
\<close>

theorem C10_create_after_add_counterexample:
  "returned create_after_add = Some None \<and>
   map (\<lambda>p. (Filename p, URLCount p)) (Sitemaps (DB (manager_of create_after_add))) =
     [(''sitemap_1.xml'', 0)] \<and>
   files (world_of create_after_add) ''./sitemaps/sitemap_index.xml'' =
     Some (Doc (IndexXml \<lparr>Index_Xmlns = SITEMAP_NAMESPACE,
       Index_Sitemaps = [\<lparr>Entry_Loc = ''https://example.com/sitemap_1.xml'',
                          Entry_LastMod = Format_YMD 0\<rparr>]\<rparr>)) \<and>
   files (world_of create_after_add) ''./sitemaps/sitemap_1.xml'' \<noteq> None \<and>
   partition_locs (world_of create_after_add) ''./sitemaps/sitemap_1.xml'' =
     [''https://example.com/a''] \<and>
   returned (createCmd DefaultConfig Map.empty one_entry_disk) = Some None \<and>
   map (\<lambda>p. (Filename p, URLCount p))
     (Sitemaps (DB (manager_of (createCmd DefaultConfig Map.empty one_entry_disk)))) =
     [(''sitemap_1.xml'', 0)] \<and>
   partition_locs (world_of (createCmd DefaultConfig Map.empty one_entry_disk))
     ''./sitemaps/sitemap_1.xml'' = [''https://example.com/a'']"
  by (simp add: create_after_add_def first_add_def eval_defs partition_locs_def)

text \<open>
  C10, amended: a successful \<^verbatim>\<open>create\<close> appends to the partitions it loaded a new, empty
  partition named by the prefix and the next number, makes it current, saves the store
  with it and writes an index that lists it; it writes no partition document: the file
  at the path of the new partition is what it was before the command, so that no
  document exists for it unless one was there already.
\<close>

theorem C10_create_writes_no_partition_document:
  assumes "returned (createCmd cfg robots w) = Some None"
  shows "let dbPath = filepath_Join (OutputDir cfg) ''.sitemaptool_db.json'';
             old = stored_partitions w dbPath;
             name = Sprintf_sitemap (SitemapPrefix cfg) (length old + 1);
             new = \<lparr>Filename = name, URLCount = 0, LastMod = clock w\<rparr>;
             sm' = manager_of (createCmd cfg robots w);
             w' = world_of (createCmd cfg robots w)
         in Sitemaps (DB sm') = old @ [new] \<and>
            CurrentSitemap (DB sm') = name \<and>
            stored_db w' dbPath = Some (old @ [new], URLHashes (DB sm'), name) \<and>
            files w' (filepath_Join (OutputDir cfg) ''sitemap_index.xml'') =
              Some (Doc (IndexXml \<lparr>Index_Xmlns = SITEMAP_NAMESPACE,
                Index_Sitemaps =
                  map (\<lambda>p. \<lparr>Entry_Loc = TrimSuffix (BaseURL cfg) ''/'' @ ''/'' @ Filename p,
                            Entry_LastMod = Format_YMD (LastMod p)\<rparr>) (old @ [new])\<rparr>)) \<and>
            files w' (filepath_Join (OutputDir cfg) name) =
              files w (filepath_Join (OutputDir cfg) name)"
proof -
  let ?db = "filepath_Join (OutputDir cfg) ''.sitemaptool_db.json''"
  let ?out = "createCmd cfg robots w"
  have "?out = Returns None (manager_of ?out) (world_of ?out)"
    using assms by (rule outcome_collapse)
  then show ?thesis
  proof (cases rule: createCmd_None)
    case (1 ss hs cur)
    have old: "stored_partitions w ?db = ss"
      using 1(1) by (simp add: stored_partitions_def)
    have st': "stored_db (world_of ?out) ?db =
        Some (Sitemaps (DB (manager_of ?out)), hs, CurrentSitemap (DB (manager_of ?out)))"
      using 1(5) by (simp add: stored_db_def)
    have part: "files (world_of ?out)
          (filepath_Join (OutputDir cfg) (Sprintf_sitemap (SitemapPrefix cfg) (length ss + 1))) =
        files w
          (filepath_Join (OutputDir cfg) (Sprintf_sitemap (SitemapPrefix cfg) (length ss + 1)))"
      by (rule 1(7)) simp_all
    have ie: "index_entry cfg =
        (\<lambda>p. \<lparr>Entry_Loc = TrimSuffix (BaseURL cfg) ''/'' @ ''/'' @ Filename p,
              Entry_LastMod = Format_YMD (LastMod p)\<rparr>)"
      by (simp add: index_entry_def fun_eq_iff)
    show ?thesis
      unfolding Let_def old
      using 1(2) 1(3) 1(4) st' 1(6) part by (simp add: ie)
  qed
qed

theorem C10_create_writes_no_partition_document_witness:
  "returned (createCmd DefaultConfig Map.empty empty_disk) = Some None \<and>
   Sitemaps (DB (manager_of (createCmd DefaultConfig Map.empty empty_disk))) =
     [\<lparr>Filename = ''sitemap_1.xml'', URLCount = 0, LastMod = 0\<rparr>] \<and>
   stored_partitions (world_of (createCmd DefaultConfig Map.empty empty_disk))
       ''./sitemaps/.sitemaptool_db.json'' =
     [\<lparr>Filename = ''sitemap_1.xml'', URLCount = 0, LastMod = 0\<rparr>] \<and>
   files (world_of (createCmd DefaultConfig Map.empty empty_disk))
       ''./sitemaps/sitemap_index.xml'' =
     Some (Doc (IndexXml \<lparr>Index_Xmlns = SITEMAP_NAMESPACE,
       Index_Sitemaps = [\<lparr>Entry_Loc = ''https://example.com/sitemap_1.xml'',
                          Entry_LastMod = Format_YMD 0\<rparr>]\<rparr>)) \<and>
   files (world_of (createCmd DefaultConfig Map.empty empty_disk))
       ''./sitemaps/sitemap_1.xml'' = None"
proof -
  have r: "returned (createCmd DefaultConfig Map.empty empty_disk) = Some None"
    by (simp add: eval_defs)
  have e: "stored_partitions empty_disk ''./sitemaps/.sitemaptool_db.json'' = []"
    by (simp add: stored_partitions_def stored_db_def empty_disk_def)
  from C10_create_writes_no_partition_document [OF r] r e show ?thesis
    by (simp add: Let_def DefaultConfig_def filepath_Join_def Sprintf_sitemap_def
        Itoa.simps digit_def TrimSuffix_def suffix_to_prefix stored_partitions_def
        empty_disk_def)
qed

end
